theory Spec2Isabelle
  imports Main "HOL-Library.Char_ord" "HOL-Library.List_Lexorder"
begin

section \<open>JavaScript strings and values\<close>

text \<open>
  Strings are character lists. A template literal concatenates its pieces; an interpolated
  value of type \<open>string | null\<close> prints the text \<open>null\<close> when it is null, and an integral
  number prints its decimal digits.
\<close>

definition NL :: string where
  "NL = [CHR 0x0A]"

text \<open>\<open>xs.join(sep)\<close> of an array of strings.\<close>

fun join :: "string \<Rightarrow> string list \<Rightarrow> string" where
  "join sep [] = []"
| "join sep [x] = x"
| "join sep (x # y # ys) = x @ sep @ join sep (y # ys)"

text \<open>Interpolation of a \<open>string | null\<close> value in a template literal.\<close>

fun js_str :: "string option \<Rightarrow> string" where
  "js_str None = ''null''"
| "js_str (Some s) = s"

text \<open>The nullish coalescing \<open>x ?? ''\<close>.\<close>

fun or_empty :: "string option \<Rightarrow> string" where
  "or_empty None = []"
| "or_empty (Some s) = s"

text \<open>Truthiness of a \<open>string | null\<close> value: neither null nor the empty string.\<close>

fun truthy_str :: "string option \<Rightarrow> bool" where
  "truthy_str None = False"
| "truthy_str (Some s) = (s \<noteq> [])"

fun show_nat :: "nat \<Rightarrow> string" where
  "show_nat n =
     (if n < 10 then [''0123456789'' ! n]
      else show_nat (n div 10) @ [''0123456789'' ! (n mod 10)])"

declare show_nat.simps [simp del]

text \<open>
  Interpolation of an integral number (the catalog's lengths and positions are integers far
  below the magnitude at which JavaScript switches to exponent notation).
\<close>

definition js_num :: "int \<Rightarrow> string" where
  "js_num i = (if i < 0 then ''-'' @ show_nat (nat (- i)) else show_nat (nat i))"

text \<open>Truthiness of a \<open>number | null\<close> value: neither null nor zero.\<close>

fun truthy_num :: "int option \<Rightarrow> bool" where
  "truthy_num None = False"
| "truthy_num (Some n) = (n \<noteq> 0)"

section \<open>Regular expressions of the rule table\<close>

text \<open>
  The patterns of \<open>MySqlColumnTypePatterns\<close> are sequences of three kinds of item: a
  literal character (an escaped parenthesis is the parenthesis itself), \<open>\d+\<close> and \<open>.+\<close>.
  All carry the flag \<open>i\<close>, so a literal letter matches in either case.
\<close>

datatype re_item = Chr char | Digits | AnyChars

type_synonym regexp = "re_item list"

definition lower :: "char \<Rightarrow> char" where
  "lower c =
     (case map_of (zip ''ABCDEFGHIJKLMNOPQRSTUVWXYZ'' ''abcdefghijklmnopqrstuvwxyz'') c of
        None \<Rightarrow> c
      | Some d \<Rightarrow> d)"

definition is_digit :: "char \<Rightarrow> bool" where
  "is_digit c = (c \<in> set ''0123456789'')"

text \<open>
  The dot matches every character but a line terminator. Characters here are single bytes:
  the line feed and the carriage return are modelled, the two line separators beyond ASCII
  are not.
\<close>

definition is_dot_char :: "char \<Rightarrow> bool" where
  "is_dot_char c = (c \<noteq> CHR 0x0A \<and> c \<noteq> CHR 0x0D)"

text \<open>
  \<open>match_here p s\<close>: the pattern matches a prefix of \<open>s\<close>. \<open>match_plus P p s\<close>: one or
  more characters satisfying \<open>P\<close>, then the rest of the pattern, with backtracking over the
  number of characters taken.
\<close>

fun match_here :: "regexp \<Rightarrow> string \<Rightarrow> bool"
  and match_plus :: "(char \<Rightarrow> bool) \<Rightarrow> regexp \<Rightarrow> string \<Rightarrow> bool" where
  "match_here [] s = True"
| "match_here (Chr c # p) [] = False"
| "match_here (Chr c # p) (x # xs) = (lower x = lower c \<and> match_here p xs)"
| "match_here (Digits # p) s = match_plus is_digit p s"
| "match_here (AnyChars # p) s = match_plus is_dot_char p s"
| "match_plus P p [] = False"
| "match_plus P p (x # xs) = (P x \<and> (match_plus P p xs \<or> match_here p xs))"

text \<open>\<open>re.test(s)\<close> without the sticky or global flag: a match may start at any position.\<close>

fun re_test :: "regexp \<Rightarrow> string \<Rightarrow> bool" where
  "re_test p [] = match_here p []"
| "re_test p (x # xs) = (match_here p (x # xs) \<or> re_test p xs)"

text \<open>The language of a pattern, for stating what \<open>re_test\<close> decides.\<close>

fun item_lang :: "re_item \<Rightarrow> string set" where
  "item_lang (Chr c) = {w. \<exists>x. w = [x] \<and> lower x = lower c}"
| "item_lang Digits = {w. w \<noteq> [] \<and> list_all is_digit w}"
| "item_lang AnyChars = {w. w \<noteq> [] \<and> list_all is_dot_char w}"

fun lang :: "regexp \<Rightarrow> string set" where
  "lang [] = {[]}"
| "lang (i # p) = {w. \<exists>u v. w = u @ v \<and> u \<in> item_lang i \<and> v \<in> lang p}"

section \<open>The rule table (mysql-info.ts)\<close>

record TypePattern =
  ts :: string
  re :: regexp

definition lit :: "string \<Rightarrow> regexp" where
  "lit s = map Chr s"

text \<open>\<open>\(\d+\)\<close> and \<open>\(\d+,\d+\)\<close> and \<open>\(.+\)\<close>.\<close>

definition paren_d :: regexp where
  "paren_d = lit ''('' @ [Digits] @ lit '')''"

definition paren_dd :: regexp where
  "paren_dd = lit ''('' @ [Digits] @ lit '','' @ [Digits] @ lit '')''"

definition paren_any :: regexp where
  "paren_any = lit ''('' @ [AnyChars] @ lit '')''"

definition mk_rule :: "string \<Rightarrow> regexp \<Rightarrow> TypePattern" where
  "mk_rule t r = \<lparr>ts = t, re = r\<rparr>"

definition MySqlColumnTypePatterns :: "TypePattern list" where
  "MySqlColumnTypePatterns =
    [ mk_rule ''number'' (lit ''bigint''),
      mk_rule ''number'' (lit ''bigint unsigned''),
      mk_rule ''any'' (lit ''binary'' @ paren_d),
      mk_rule ''any'' (lit ''blob''),
      mk_rule ''string'' (lit ''char'' @ paren_d),
      mk_rule ''string'' (lit ''datetime''),
      mk_rule ''number'' (lit ''decimal'' @ paren_dd),
      mk_rule ''number'' (lit ''decimal'' @ paren_dd @ lit '' unsigned''),
      mk_rule ''number'' (lit ''double''),
      mk_rule ''number'' (lit ''double'' @ paren_dd),
      mk_rule ''string'' (lit ''enum'' @ paren_any),
      mk_rule ''number'' (lit ''float''),
      mk_rule ''number'' (lit ''float unsigned''),
      mk_rule ''number'' (lit ''float'' @ paren_dd),
      mk_rule ''number'' (lit ''int''),
      mk_rule ''number'' (lit ''int unsigned''),
      mk_rule ''any'' (lit ''json''),
      mk_rule ''any'' (lit ''longblob''),
      mk_rule ''string'' (lit ''longtext''),
      mk_rule ''any'' (lit ''mediumblob''),
      mk_rule ''number'' (lit ''mediumint unsigned''),
      mk_rule ''string'' (lit ''mediumtext''),
      mk_rule ''string'' (lit ''set'' @ paren_any),
      mk_rule ''number'' (lit ''smallint''),
      mk_rule ''number'' (lit ''smallint unsigned''),
      mk_rule ''string'' (lit ''text''),
      mk_rule ''string'' (lit ''time''),
      mk_rule ''string'' (lit ''time'' @ paren_d),
      mk_rule ''string'' (lit ''timestamp''),
      mk_rule ''string'' (lit ''timestamp'' @ paren_d),
      mk_rule ''number'' (lit ''tinyint''),
      mk_rule ''number'' (lit ''tinyint unsigned''),
      mk_rule ''number'' (lit ''tinyint'' @ paren_d),
      mk_rule ''any'' (lit ''varbinary'' @ paren_d),
      mk_rule ''string'' (lit ''varchar'' @ paren_d) ]"


section \<open>Catalog rows (mysql-info.ts)\<close>

text \<open>
  The three row interfaces, field by field. A field typed \<open>T | null\<close> is an option; numbers
  are integers. \<open>column_comment\<close> is declared a string, but the generator still guards it
  with \<open>?? ''\<close>, so the model lets it be absent as well. \<open>MySqlTable\<close> and \<open>MySqlColumn\<close>
  share three field names; the table's are written qualified.
\<close>

record MySqlSchema =
  catalog_name :: "string option"
  default_character_set_name :: string
  default_collation_name :: string
  default_encryption :: string
  schema_name :: "string option"
  sql_path :: "string option"

record MySqlTable =
  auto_increment :: "int option"
  avg_row_length :: "int option"
  check_time :: "string option"
  checksum :: "int option"
  create_options :: "string option"
  create_time :: string
  data_free :: "int option"
  data_length :: "int option"
  engine :: "string option"
  index_length :: "int option"
  max_data_length :: "int option"
  row_format :: "string option"
  table_catalog :: "string option"
  table_collation :: "string option"
  table_comment :: "string option"
  table_name :: "string option"
  table_rows :: "int option"
  table_schema :: "string option"
  table_type :: string
  update_time :: "string option"
  version :: "int option"

record MySqlColumn =
  character_maximum_length :: "int option"
  character_octet_length :: "int option"
  character_set_name :: "string option"
  collation_name :: "string option"
  column_comment :: "string option"
  column_default :: "string option"
  column_key :: string
  column_name :: "string option"
  column_type :: string
  data_type :: "string option"
  datetime_precision :: "int option"
  extra :: "string option"
  generation_expression :: string
  is_nullable :: string
  numeric_precision :: "int option"
  numeric_scale :: "int option"
  ordinal_position :: int
  privileges :: "string option"
  srs_id :: "int option"
  table_catalog :: "string option"
  table_name :: "string option"
  table_schema :: "string option"

text \<open>
  The catalog reader as the generator sees it: \<open>schemata()\<close>, and \<open>schema(name).tables()\<close>
  and \<open>schema(name).columns()\<close> as the fields \<open>schemaTables\<close> and \<open>schemaColumns\<close>; each
  returns its rows or throws.
\<close>

datatype error = DbConnError | DbQueryError

record MySqlInfoService =
  schemata :: "error + MySqlSchema list"
  schemaTables :: "string \<Rightarrow> error + MySqlTable list"
  schemaColumns :: "string \<Rightarrow> error + MySqlColumn list"



section \<open>The type mapper\<close>

text \<open>Modelled from the spec: \<open>getTsType\<close> of \<open>./utils\<close>, which the generator imports, is not
  among the source files. The spec (4.1) has it test the native type description against
  each rule of the table in list order and return the category of the first rule that
  matches, with the opaque category \<open>any\<close> when none does.\<close>

fun getTsTypeFrom :: "TypePattern list \<Rightarrow> string \<Rightarrow> string" where
  "getTsTypeFrom [] description = ''any''"
| "getTsTypeFrom (r # rules) description =
     (if re_test (re r) description then ts r else getTsTypeFrom rules description)"

text \<open>Modelled from the spec: the scan applied to the rule table of the source.\<close>

definition getTsType :: "string \<Rightarrow> string" where
  "getTsType description = getTsTypeFrom MySqlColumnTypePatterns description"

text \<open>Position of a pattern in a rule list, and whether one pattern is a contiguous part
  of another (then every description the longer one matches, the shorter one matches too).\<close>

fun pattern_index :: "TypePattern list \<Rightarrow> regexp \<Rightarrow> nat option" where
  "pattern_index [] r = None"
| "pattern_index (x # xs) r =
     (if re x = r then Some 0 else map_option Suc (pattern_index xs r))"

fun starts_with :: "'a list \<Rightarrow> 'a list \<Rightarrow> bool" where
  "starts_with [] ys = True"
| "starts_with (x # xs) [] = False"
| "starts_with (x # xs) (y # ys) = (x = y \<and> starts_with xs ys)"

fun occurs_in :: "'a list \<Rightarrow> 'a list \<Rightarrow> bool" where
  "occurs_in xs [] = starts_with xs []"
| "occurs_in xs (y # ys) = (starts_with xs (y # ys) \<or> occurs_in xs ys)"

text \<open>
  The specific numeric subtype patterns and the bare generic patterns, as they stand in
  the table.
\<close>

definition specificNumericPatterns :: "regexp list" where
  "specificNumericPatterns =
     [ lit ''bigint'', lit ''smallint'', lit ''tinyint'', lit ''mediumint unsigned'',
       lit ''decimal'' @ paren_dd, lit ''float'' @ paren_dd, lit ''double'' @ paren_dd ]"

definition genericNumericPatterns :: "regexp list" where
  "genericNumericPatterns = [ lit ''int'', lit ''float'', lit ''double'' ]"

text \<open>Category of the rule that holds a pattern.\<close>

fun pattern_ts :: "TypePattern list \<Rightarrow> regexp \<Rightarrow> string option" where
  "pattern_ts [] r = None"
| "pattern_ts (x # xs) r = (if re x = r then Some (ts x) else pattern_ts xs r)"

text \<open>Pattern \<open>a\<close> stands at an earlier position of the list than pattern \<open>b\<close>.\<close>

definition precedes :: "TypePattern list \<Rightarrow> regexp \<Rightarrow> regexp \<Rightarrow> bool" where
  "precedes rules a b =
     (case pattern_index rules a of
        None \<Rightarrow> False
      | Some i \<Rightarrow> (case pattern_index rules b of None \<Rightarrow> False | Some j \<Rightarrow> i < j))"

text \<open>The pairs of a specific pattern and a bare generic pattern that is part of it.\<close>

definition overlappingPairs :: "(regexp \<times> regexp) list" where
  "overlappingPairs =
     concat (map (\<lambda>s. map (\<lambda>g. (s, g)) (filter (\<lambda>g. occurs_in g s) genericNumericPatterns))
       specificNumericPatterns)"

section \<open>The generator (mysql-dto-generator.ts)\<close>

text \<open>
  The methods of \<open>MySqlDtoGenerator\<close>, named as in the source without the leading
  underscore. The imported \<open>getTsType\<close> is the parameter \<open>mapType\<close>, applied to the column
  as the source does.
\<close>

record GenerateSchemaOutput =
  schemaName :: string
  content :: string

subsection \<open>One column\<close>

definition nullable :: "MySqlColumn \<Rightarrow> string" where
  "nullable c = (if is_nullable c = ''YES'' then '' | null'' else [])"

definition maxChars :: "MySqlColumn \<Rightarrow> string" where
  "maxChars c =
     (if truthy_num (character_maximum_length c)
      then ''('' @ js_num (the (character_maximum_length c)) @ '')''
      else [])"

definition columnCommentLine :: "MySqlColumn \<Rightarrow> string" where
  "columnCommentLine c =
     (let columnComment = or_empty (column_comment c)
      in if columnComment \<noteq> [] then NL @ ''   * '' @ columnComment else [])"

definition generateColumnDefinition :: "(MySqlColumn \<Rightarrow> string) \<Rightarrow> MySqlColumn \<Rightarrow> string" where
  "generateColumnDefinition mapType c =
     (let readonly = [];
          tsType = mapType c
      in NL @ ''  /**'' @ columnCommentLine c @
         NL @ ''   * Type: '' @ js_str (data_type c) @ maxChars c @
         NL @ ''   * Default value: '' @ js_str (column_default c) @
         NL @ ''   */'' @
         NL @ ''  '' @ readonly @ js_str (column_name c) @ '': '' @ tsType @ nullable c @ '';'')"

subsection \<open>One table\<close>

definition columnListAll ::
  "(MySqlColumn \<Rightarrow> string) \<Rightarrow> MySqlColumn list \<Rightarrow> (MySqlColumn \<times> string) list" where
  "columnListAll mapType columns =
     map (\<lambda>column. (column, generateColumnDefinition mapType column)) columns"

definition columnListWritable ::
  "(MySqlColumn \<Rightarrow> string) \<Rightarrow> MySqlColumn list \<Rightarrow> string list" where
  "columnListWritable mapType columns = map snd (columnListAll mapType columns)"

definition allColumnsWritable :: "(MySqlColumn \<Rightarrow> string) \<Rightarrow> MySqlColumn list \<Rightarrow> bool" where
  "allColumnsWritable mapType columns =
     (length (columnListAll mapType columns) = length (columnListWritable mapType columns))"

definition tableCommentLine :: "MySqlTable \<Rightarrow> string" where
  "tableCommentLine table =
     (let tableComment = or_empty (table_comment table)
      in if tableComment \<noteq> [] then NL @ '' * '' @ tableComment else [])"

text \<open>The two templates of \<open>_generateTableModels\<close>.\<close>

definition unifiedShape :: "string \<Rightarrow> string \<Rightarrow> string \<Rightarrow> string" where
  "unifiedShape tableName comment columnListAllText =
     NL @ ''/**'' @
     NL @ '' * Model for read & write operations on table '' @ tableName @ comment @
     NL @ '' */'' @
     NL @ ''export interface '' @ tableName @ ''DtoWritable {'' @
     NL @ columnListAllText @
     NL @ ''}'' @
     NL @ ''export type '' @ tableName @ ''Dto = '' @ tableName @ ''DtoWritable;''"

definition splitShape :: "string \<Rightarrow> string \<Rightarrow> string \<Rightarrow> string \<Rightarrow> string" where
  "splitShape tableName comment columnListToWriteText columnListReadOnlyText =
     NL @ ''/**'' @
     NL @ '' * Model for write operations on table '' @ tableName @ comment @
     NL @ '' */'' @
     NL @ ''export interface '' @ tableName @ ''DtoWritable {'' @
     NL @ columnListToWriteText @
     NL @ ''}'' @
     NL @ ''/**'' @
     NL @ '' * Model for read operations on table '' @ tableName @
     NL @ '' */'' @
     NL @ ''export interface '' @ tableName @ ''Dto extends '' @ tableName @ ''DtoWritable {'' @
     NL @ columnListReadOnlyText @
     NL @ ''}''"

definition generateTableModels ::
  "(MySqlColumn \<Rightarrow> string) \<Rightarrow> MySqlTable \<Rightarrow> MySqlColumn list \<Rightarrow> string" where
  "generateTableModels mapType table columns =
     (let tableName = or_empty (MySqlTable.table_name table);
          comment = tableCommentLine table
      in if allColumnsWritable mapType columns
         then unifiedShape tableName comment
                (join NL (map snd (columnListAll mapType columns)))
         else splitShape tableName comment
                (join NL (columnListWritable mapType columns))
                (join NL (map snd (columnListAll mapType columns))))"

subsection \<open>One schema\<close>

definition columnsOfTable :: "MySqlTable \<Rightarrow> MySqlColumn list \<Rightarrow> MySqlColumn list" where
  "columnsOfTable tableRow columnRows =
     filter (\<lambda>c. MySqlColumn.table_name c = MySqlTable.table_name tableRow) columnRows"

text \<open>The loop over the table rows, pushing one text per named table onto \<open>modelList\<close>.\<close>

fun tableLoop ::
  "(MySqlColumn \<Rightarrow> string) \<Rightarrow> MySqlColumn list \<Rightarrow> MySqlTable list \<Rightarrow> string list \<Rightarrow> string list" where
  "tableLoop mapType columnRows [] modelList = modelList"
| "tableLoop mapType columnRows (tableRow # rest) modelList =
     (if \<not> truthy_str (MySqlTable.table_name tableRow)
      then tableLoop mapType columnRows rest modelList
      else tableLoop mapType columnRows rest
             (modelList @
              [generateTableModels mapType tableRow (columnsOfTable tableRow columnRows)]))"

definition schemaContent ::
  "(MySqlColumn \<Rightarrow> string) \<Rightarrow> MySqlTable list \<Rightarrow> MySqlColumn list \<Rightarrow> string" where
  "schemaContent mapType tableRows columnRows =
     (let modelList = tableLoop mapType columnRows tableRows [];
          modelsText = join NL modelList
      in NL @ ''import { JsonType } from './_types';'' @ NL @ modelsText @ NL)"

definition generateSchema ::
  "(MySqlColumn \<Rightarrow> string) \<Rightarrow> MySqlInfoService \<Rightarrow> string \<Rightarrow> error + GenerateSchemaOutput" where
  "generateSchema mapType info name =
     (case schemaTables info name of
        Inl e \<Rightarrow> Inl e
      | Inr tableRows \<Rightarrow>
          (case schemaColumns info name of
             Inl e \<Rightarrow> Inl e
           | Inr columnRows \<Rightarrow>
               Inr \<lparr>schemaName = name,
                    content = schemaContent mapType tableRows columnRows\<rparr>))"

subsection \<open>The run\<close>

definition generateCommonTypes :: GenerateSchemaOutput where
  "generateCommonTypes =
     \<lparr>schemaName = ''_types'',
      content =
        NL @ ''// recursive JSON type; you can append nullable or not'' @
        NL @ ''export type JsonType = string | number | boolean | { [x: string]: JsonType } | Array<JsonType>;'' @
        NL @ ''    ''\<rparr>"

text \<open>The loop over the schema rows; a throwing query ends the run with its error.\<close>

fun generateLoop ::
  "(MySqlColumn \<Rightarrow> string) \<Rightarrow> MySqlInfoService \<Rightarrow> MySqlSchema list \<Rightarrow>
   GenerateSchemaOutput list \<Rightarrow> error + GenerateSchemaOutput list" where
  "generateLoop mapType info [] output = Inr output"
| "generateLoop mapType info (schemaRow # rest) output =
     (if \<not> truthy_str (schema_name schemaRow)
      then generateLoop mapType info rest output
      else (case generateSchema mapType info (or_empty (schema_name schemaRow)) of
              Inl e \<Rightarrow> Inl e
            | Inr schemaOut \<Rightarrow> generateLoop mapType info rest (output @ [schemaOut])))"

definition generate ::
  "(MySqlColumn \<Rightarrow> string) \<Rightarrow> MySqlInfoService \<Rightarrow> error + GenerateSchemaOutput list" where
  "generate mapType info =
     (case schemata info of
        Inl e \<Rightarrow> Inl e
      | Inr schemaRows \<Rightarrow> generateLoop mapType info schemaRows [generateCommonTypes])"

text \<open>The names of the schema rows that the loop does not skip, in row order.\<close>

fun survivingSchemaNames :: "MySqlSchema list \<Rightarrow> string list" where
  "survivingSchemaNames [] = []"
| "survivingSchemaNames (r # rs) =
     (if truthy_str (schema_name r) then or_empty (schema_name r) # survivingSchemaNames rs
      else survivingSchemaNames rs)"


section \<open>Vocabulary of the properties\<close>

text \<open>
  The documentation block of the column template, from \<open>/**\<close> to \<open>*/\<close>, and the line of the
  field under it up to the colon.
\<close>

definition columnDocBlock :: "MySqlColumn \<Rightarrow> string" where
  "columnDocBlock c =
     NL @ ''  /**'' @ columnCommentLine c @
     NL @ ''   * Type: '' @ js_str (data_type c) @ maxChars c @
     NL @ ''   * Default value: '' @ js_str (column_default c) @
     NL @ ''   */''"

definition fieldHead :: "MySqlColumn \<Rightarrow> string" where
  "fieldHead c = NL @ ''  '' @ js_str (column_name c) @ '': ''"

text \<open>
  Rows of a table \<open>users\<close> created with the columns \<open>id\<close> and \<open>bio\<close>, in this order, as the
  catalog describes them.
\<close>

definition usersTable :: MySqlTable where
  "usersTable =
     \<lparr> auto_increment = Some 1, avg_row_length = Some 0, check_time = None,
       checksum = None, create_options = Some [], create_time = ''2024-01-01 00:00:00'',
       data_free = Some 0, data_length = Some 16384, engine = Some ''InnoDB'',
       index_length = Some 0, max_data_length = Some 0, row_format = Some ''Dynamic'',
       MySqlTable.table_catalog = Some ''def'', table_collation = Some ''utf8mb4_0900_ai_ci'',
       table_comment = Some [], MySqlTable.table_name = Some ''users'', table_rows = Some 0,
       MySqlTable.table_schema = Some ''shop'', table_type = ''BASE TABLE'',
       update_time = None, version = Some 10 \<rparr>"

definition idColumn :: MySqlColumn where
  "idColumn =
     \<lparr> character_maximum_length = None, character_octet_length = None,
       character_set_name = None, collation_name = None, column_comment = Some [],
       column_default = None, column_key = ''PRI'', column_name = Some ''id'',
       column_type = ''bigint unsigned'', data_type = Some ''bigint'',
       datetime_precision = None, extra = Some ''auto_increment'',
       generation_expression = [], is_nullable = ''NO'', numeric_precision = Some 20,
       numeric_scale = Some 0, ordinal_position = 1,
       privileges = Some ''select,insert,update,references'', srs_id = None,
       table_catalog = Some ''def'', table_name = Some ''users'',
       table_schema = Some ''shop'' \<rparr>"

definition bioColumn :: MySqlColumn where
  "bioColumn =
     \<lparr> character_maximum_length = Some 255, character_octet_length = Some 1020,
       character_set_name = Some ''utf8mb4'', collation_name = Some ''utf8mb4_0900_ai_ci'',
       column_comment = Some ''User biography'', column_default = None, column_key = [],
       column_name = Some ''bio'', column_type = ''varchar(255)'',
       data_type = Some ''varchar'', datetime_precision = None, extra = Some [],
       generation_expression = [], is_nullable = ''YES'', numeric_precision = None,
       numeric_scale = None, ordinal_position = 2,
       privileges = Some ''select,insert,update,references'', srs_id = None,
       table_catalog = Some ''def'', table_name = Some ''users'',
       table_schema = Some ''shop'' \<rparr>"

definition shopSchema :: MySqlSchema where
  "shopSchema =
     \<lparr> catalog_name = Some ''def'', default_character_set_name = ''utf8mb4'',
       default_collation_name = ''utf8mb4_0900_ai_ci'', default_encryption = ''NO'',
       schema_name = Some ''shop'', sql_path = None \<rparr>"

text \<open>The type mapper applied to the column's \<open>column_type\<close>, for the examples.\<close>

definition typeOfColumn :: "MySqlColumn \<Rightarrow> string" where
  "typeOfColumn c = getTsType (column_type c)"

text \<open>
  The order of the query \<open>sqlSelectColumns\<close>, \<open>ORDER BY table_name, column_name\<close>: whether
  row \<open>a\<close> may stand before row \<open>b\<close> (names compared character by character).
\<close>

definition sqlSelectColumns_orderBy :: "MySqlColumn \<Rightarrow> MySqlColumn \<Rightarrow> bool" where
  "sqlSelectColumns_orderBy a b =
     (or_empty (MySqlColumn.table_name a) < or_empty (MySqlColumn.table_name b) \<or>
      (or_empty (MySqlColumn.table_name a) = or_empty (MySqlColumn.table_name b) \<and>
       or_empty (column_name a) \<le> or_empty (column_name b)))"

text \<open>
  A query that returned its rows; and the queries of a list of schema names, all of which
  returned theirs.
\<close>

fun returned :: "error + 'a \<Rightarrow> bool" where
  "returned (Inl e) = False"
| "returned (Inr rows) = True"

definition queriesSucceed :: "MySqlInfoService \<Rightarrow> string list \<Rightarrow> bool" where
  "queriesSucceed info names =
     list_all (\<lambda>n. returned (schemaTables info n) \<and> returned (schemaColumns info n)) names"

text \<open>
  A reader over one schema \<open>shop\<close> with the table \<open>users\<close>, its column rows in the order of
  the query; and a reader that also returns a row naming the system schema \<open>mysql\<close>.
\<close>

definition shopReader :: MySqlInfoService where
  "shopReader =
     \<lparr> schemata = Inr [shopSchema],
       schemaTables = (\<lambda>n. Inr (if n = ''shop'' then [usersTable] else [])),
       schemaColumns = (\<lambda>n. Inr (if n = ''shop'' then [bioColumn, idColumn] else [])) \<rparr>"



text \<open>Rows without a name: a schema row and a table row.\<close>

definition namelessSchema :: MySqlSchema where
  "namelessSchema = shopSchema\<lparr>schema_name := None\<rparr>"

definition namelessTable :: MySqlTable where
  "namelessTable = usersTable\<lparr>MySqlTable.table_name := None\<rparr>"

section \<open>The column renderer\<close>

lemma getTsType_bigint_unsigned: "getTsType ''bigint unsigned'' = ''number''"
  by code_simp

lemma getTsType_varchar_255: "getTsType ''varchar(255)'' = ''string''"
  by code_simp

lemma generateColumnDefinition_parts:
  "generateColumnDefinition mapType c =
     columnDocBlock c @ fieldHead c @ mapType c @ nullable c @ '';''"
  by (simp add: generateColumnDefinition_def columnDocBlock_def fieldHead_def)

text \<open>
  C5. A column whose nullability flag is \<open>YES\<close> renders its field type as the mapped
  category followed by the null union; a column whose flag is \<open>NO\<close> renders exactly the
  mapped category. The marker is the same for any two columns with the same flag, and
  changing the default value does not change it.
\<close>

theorem nullability_from_flag:
  "(is_nullable c = ''YES'' \<longrightarrow>
      generateColumnDefinition mapType c =
        columnDocBlock c @ fieldHead c @ mapType c @ '' | null'' @ '';'')
   \<and> (is_nullable c = ''NO'' \<longrightarrow>
      generateColumnDefinition mapType c = columnDocBlock c @ fieldHead c @ mapType c @ '';'')
   \<and> (is_nullable c' = is_nullable c \<longrightarrow> nullable c' = nullable c)
   \<and> nullable (c\<lparr>column_default := d\<rparr>) = nullable c"
  by (simp add: generateColumnDefinition_parts nullable_def)

theorem nullability_from_flag_witness:
  "is_nullable bioColumn = ''YES''
   \<and> generateColumnDefinition typeOfColumn bioColumn =
        columnDocBlock bioColumn @ fieldHead bioColumn @ typeOfColumn bioColumn @
        '' | null'' @ '';''
   \<and> is_nullable idColumn = ''NO''
   \<and> generateColumnDefinition typeOfColumn idColumn =
        columnDocBlock idColumn @ fieldHead idColumn @ typeOfColumn idColumn @ '';''
   \<and> is_nullable (bioColumn\<lparr>column_default := Some ''n/a''\<rparr>) = is_nullable bioColumn
   \<and> nullable (bioColumn\<lparr>column_default := Some ''n/a''\<rparr>) = nullable bioColumn"
  using nullability_from_flag
      [of bioColumn typeOfColumn "bioColumn\<lparr>column_default := Some ''n/a''\<rparr>" "Some ''n/a''"]
    nullability_from_flag [of idColumn typeOfColumn idColumn None]
  by (simp add: bioColumn_def idColumn_def)

text \<open>
  C10. The rendered field carries the null union if and only if \<open>is_nullable\<close> is exactly
  the string \<open>YES\<close>: the declaration ends with the mapped category, then \<open> | null\<close> for
  \<open>YES\<close> and nothing for any other value, then the semicolon. With any other value the
  whole declaration is the one rendered for the same column with the flag \<open>NO\<close> (the
  type mapper giving both the same category).
\<close>

theorem null_union_iff_exactly_YES:
  "generateColumnDefinition mapType c =
     columnDocBlock c @ NL @ ''  '' @ js_str (column_name c) @ '': '' @ mapType c @
     (if is_nullable c = ''YES'' then '' | null'' else []) @ '';''
   \<and> (generateColumnDefinition mapType c =
         columnDocBlock c @ NL @ ''  '' @ js_str (column_name c) @ '': '' @ mapType c @
         '' | null'' @ '';''
        \<longleftrightarrow> is_nullable c = ''YES'')
   \<and> (nullable c = '' | null'' \<longleftrightarrow> is_nullable c = ''YES'')
   \<and> (is_nullable c \<noteq> ''YES'' \<longrightarrow>
        generateColumnDefinition mapType c =
          columnDocBlock c @ NL @ ''  '' @ js_str (column_name c) @ '': '' @ mapType c @ '';''
        \<and> (mapType' (c\<lparr>is_nullable := ''NO''\<rparr>) = mapType c \<longrightarrow>
             generateColumnDefinition mapType c =
               generateColumnDefinition mapType' (c\<lparr>is_nullable := ''NO''\<rparr>)))"
  by (simp add: generateColumnDefinition_parts nullable_def columnDocBlock_def fieldHead_def
      columnCommentLine_def maxChars_def)

theorem null_union_iff_exactly_YES_witness:
  "is_nullable bioColumn = ''YES''
   \<and> generateColumnDefinition typeOfColumn bioColumn =
       columnDocBlock bioColumn @ NL @ ''  bio: string | null;''
   \<and> is_nullable (bioColumn\<lparr>is_nullable := ''yes''\<rparr>) \<noteq> ''YES''
   \<and> generateColumnDefinition typeOfColumn (bioColumn\<lparr>is_nullable := ''yes''\<rparr>) =
       columnDocBlock (bioColumn\<lparr>is_nullable := ''yes''\<rparr>) @ NL @ ''  bio: string;''
   \<and> typeOfColumn (bioColumn\<lparr>is_nullable := ''yes'', is_nullable := ''NO''\<rparr>) =
       typeOfColumn (bioColumn\<lparr>is_nullable := ''yes''\<rparr>)
   \<and> generateColumnDefinition typeOfColumn (bioColumn\<lparr>is_nullable := ''yes''\<rparr>) =
       generateColumnDefinition typeOfColumn
         (bioColumn\<lparr>is_nullable := ''yes'', is_nullable := ''NO''\<rparr>)"
proof -
  let ?c = "bioColumn\<lparr>is_nullable := ''yes''\<rparr>"
  have yes: "is_nullable bioColumn = ''YES''"
    by (simp add: bioColumn_def)
  have flag: "is_nullable ?c \<noteq> ''YES''"
    by simp
  have same: "typeOfColumn (?c\<lparr>is_nullable := ''NO''\<rparr>) = typeOfColumn ?c"
    by (simp add: typeOfColumn_def)
  have name: "js_str (column_name bioColumn) = ''bio''" "js_str (column_name ?c) = ''bio''"
    by (simp_all add: bioColumn_def)
  have type: "typeOfColumn bioColumn = ''string''" "typeOfColumn ?c = ''string''"
    by (simp_all add: typeOfColumn_def bioColumn_def getTsType_varchar_255)
  note inst_yes = null_union_iff_exactly_YES [of typeOfColumn bioColumn typeOfColumn]
  note inst = null_union_iff_exactly_YES [of typeOfColumn ?c typeOfColumn]
  from inst_yes yes
  have "generateColumnDefinition typeOfColumn bioColumn =
      columnDocBlock bioColumn @ NL @ ''  '' @ js_str (column_name bioColumn) @ '': '' @
      typeOfColumn bioColumn @ '' | null'' @ '';''"
    by blast
  then have 1: "generateColumnDefinition typeOfColumn bioColumn =
      columnDocBlock bioColumn @ NL @ ''  bio: string | null;''"
    by (simp only: name type) simp
  from inst flag
  have "generateColumnDefinition typeOfColumn ?c =
      columnDocBlock ?c @ NL @ ''  '' @ js_str (column_name ?c) @ '': '' @
      typeOfColumn ?c @ '';''"
    by blast
  then have 2: "generateColumnDefinition typeOfColumn ?c =
      columnDocBlock ?c @ NL @ ''  bio: string;''"
    by (simp only: name type) simp
  from inst flag same
  have 3: "generateColumnDefinition typeOfColumn ?c =
        generateColumnDefinition typeOfColumn (?c\<lparr>is_nullable := ''NO''\<rparr>)"
    by blast
  from yes flag same 1 2 3 show ?thesis
    by blast
qed

text \<open>
  C8. Every field declaration starts with a documentation block that holds, in this order:
  the comment line, present exactly when the comment is a non-empty string (the block is
  there either way); the line of \<open>data_type\<close>, followed by \<open>(n)\<close> when the length is
  present (and not zero) and by nothing when the length is absent; and the line of the
  default value, which reads \<open>null\<close> when there is none.
\<close>

theorem column_doc_block:
  "generateColumnDefinition mapType c =
     columnDocBlock c @ fieldHead c @ mapType c @ nullable c @ '';''
   \<and> columnDocBlock c =
       NL @ ''  /**'' @
       (case column_comment c of
          None \<Rightarrow> []
        | Some t \<Rightarrow> if t = [] then [] else NL @ ''   * '' @ t) @
       NL @ ''   * Type: '' @ js_str (data_type c) @
       (case character_maximum_length c of
          None \<Rightarrow> []
        | Some n \<Rightarrow> if n = 0 then [] else ''('' @ js_num n @ '')'') @
       NL @ ''   * Default value: '' @
       (case column_default c of None \<Rightarrow> ''null'' | Some d \<Rightarrow> d) @
       NL @ ''   */''"
  by (simp add: generateColumnDefinition_parts columnDocBlock_def columnCommentLine_def
      maxChars_def split: option.splits)

theorem column_doc_block_witness:
  "generateColumnDefinition typeOfColumn bioColumn =
     columnDocBlock bioColumn @ fieldHead bioColumn @ typeOfColumn bioColumn @
     nullable bioColumn @ '';''
   \<and> columnDocBlock bioColumn =
       NL @ ''  /**'' @
       NL @ ''   * User biography'' @
       NL @ ''   * Type: varchar(255)'' @
       NL @ ''   * Default value: null'' @
       NL @ ''   */''
   \<and> columnDocBlock idColumn =
       NL @ ''  /**'' @
       NL @ ''   * Type: bigint'' @
       NL @ ''   * Default value: null'' @
       NL @ ''   */''"
  using column_doc_block [of typeOfColumn bioColumn] column_doc_block [of typeOfColumn idColumn]
  by (simp add: bioColumn_def idColumn_def js_num_def show_nat.simps)

section \<open>The table models\<close>

lemma generateTableModels_text:
  "generateTableModels mapType table columns =
     NL @ ''/**'' @
     NL @ '' * Model for read & write operations on table '' @
       or_empty (MySqlTable.table_name table) @
       (case table_comment table of
          None \<Rightarrow> []
        | Some t \<Rightarrow> if t = [] then [] else NL @ '' * '' @ t) @
     NL @ '' */'' @
     NL @ ''export interface '' @ or_empty (MySqlTable.table_name table) @ ''DtoWritable {'' @
     NL @ join NL (map (generateColumnDefinition mapType) columns) @
     NL @ ''}'' @
     NL @ ''export type '' @ or_empty (MySqlTable.table_name table) @ ''Dto = '' @
       or_empty (MySqlTable.table_name table) @ ''DtoWritable;''"
  by (simp add: columnListWritable_def columnListAll_def allColumnsWritable_def
      generateTableModels_def unifiedShape_def tableCommentLine_def comp_def Let_def
      split: option.splits)

text \<open>
  C4. The writable list is the list of all rendered columns, so the lengths compared by
  \<open>allColumnsWritable\<close> are always equal and the result is always the text of the unified
  template: one interface \<open>{table}DtoWritable\<close> holding every field, followed by the alias
  \<open>{table}Dto = {table}DtoWritable\<close>. It is never the text of the split template, with
  its second interface that extends the first.
\<close>

theorem writable_subset_is_all:
  "columnListWritable mapType columns = map (generateColumnDefinition mapType) columns
   \<and> map fst (columnListAll mapType columns) = columns
   \<and> allColumnsWritable mapType columns
   \<and> generateTableModels mapType table columns =
       NL @ ''/**'' @
       NL @ '' * Model for read & write operations on table '' @
         or_empty (MySqlTable.table_name table) @
         (case table_comment table of
            None \<Rightarrow> []
          | Some t \<Rightarrow> if t = [] then [] else NL @ '' * '' @ t) @
       NL @ '' */'' @
       NL @ ''export interface '' @ or_empty (MySqlTable.table_name table) @ ''DtoWritable {'' @
       NL @ join NL (map (generateColumnDefinition mapType) columns) @
       NL @ ''}'' @
       NL @ ''export type '' @ or_empty (MySqlTable.table_name table) @ ''Dto = '' @
         or_empty (MySqlTable.table_name table) @ ''DtoWritable;''
   \<and> generateTableModels mapType table columns \<noteq>
       NL @ ''/**'' @
       NL @ '' * Model for write operations on table '' @ tableName @ comment @
       NL @ '' */'' @
       NL @ ''export interface '' @ tableName @ ''DtoWritable {'' @
       NL @ columnListToWriteText @
       NL @ ''}'' @
       NL @ ''/**'' @
       NL @ '' * Model for read operations on table '' @ tableName @
       NL @ '' */'' @
       NL @ ''export interface '' @ tableName @ ''Dto extends '' @ tableName @
         ''DtoWritable {'' @
       NL @ columnListReadOnlyText @
       NL @ ''}''"
proof -
  have "generateTableModels mapType table columns \<noteq>
       NL @ ''/**'' @
       NL @ '' * Model for write operations on table '' @ tableName @ comment @
       NL @ '' */'' @
       NL @ ''export interface '' @ tableName @ ''DtoWritable {'' @
       NL @ columnListToWriteText @
       NL @ ''}'' @
       NL @ ''/**'' @
       NL @ '' * Model for read operations on table '' @ tableName @
       NL @ '' */'' @
       NL @ ''export interface '' @ tableName @ ''Dto extends '' @ tableName @
         ''DtoWritable {'' @
       NL @ columnListReadOnlyText @
       NL @ ''}''"
    by (simp add: generateTableModels_text NL_def)
  moreover have "columnListWritable mapType columns =
      map (generateColumnDefinition mapType) columns"
    by (simp add: columnListWritable_def columnListAll_def comp_def)
  moreover have "map fst (columnListAll mapType columns) = columns"
    by (simp add: columnListAll_def comp_def)
  moreover have "allColumnsWritable mapType columns"
    by (simp add: allColumnsWritable_def columnListWritable_def)
  ultimately show ?thesis
    using generateTableModels_text [of mapType table columns] by blast
qed

theorem writable_subset_is_all_witness:
  "allColumnsWritable typeOfColumn [bioColumn, idColumn]
   \<and> generateTableModels typeOfColumn usersTable [bioColumn, idColumn] =
       NL @ ''/**'' @
       NL @ '' * Model for read & write operations on table users'' @
       NL @ '' */'' @
       NL @ ''export interface usersDtoWritable {'' @
       NL @ generateColumnDefinition typeOfColumn bioColumn @
       NL @ generateColumnDefinition typeOfColumn idColumn @
       NL @ ''}'' @
       NL @ ''export type usersDto = usersDtoWritable;''"
  using writable_subset_is_all [of typeOfColumn "[bioColumn, idColumn]" usersTable]
  by (simp add: usersTable_def)

lemma generateTableModels_unified:
  "generateTableModels mapType table columns =
     unifiedShape (or_empty (MySqlTable.table_name table)) (tableCommentLine table)
       (join NL (map (generateColumnDefinition mapType) columns))"
  by (simp add: columnListWritable_def columnListAll_def allColumnsWritable_def
      generateTableModels_def comp_def)

text \<open>
  C3, as stated, fails. The table \<open>users\<close> was created with \<open>id\<close> before \<open>bio\<close>; the query
  lists its column rows by name, \<open>bio\<close> (ordinal position 2) before \<open>id\<close> (ordinal
  position 1), and the emitted block has the fields in that order.
\<close>

theorem fields_in_ordinal_order_counterexample:
  "sorted_wrt sqlSelectColumns_orderBy [bioColumn, idColumn]
   \<and> columnsOfTable usersTable [bioColumn, idColumn] = [bioColumn, idColumn]
   \<and> map ordinal_position [bioColumn, idColumn] = [2, 1]
   \<and> \<not> sorted (map ordinal_position (columnsOfTable usersTable [bioColumn, idColumn]))
   \<and> generateTableModels typeOfColumn usersTable
        (columnsOfTable usersTable [bioColumn, idColumn]) =
       NL @ ''/**'' @
       NL @ '' * Model for read & write operations on table users'' @
       NL @ '' */'' @
       NL @ ''export interface usersDtoWritable {'' @
       NL @
       NL @ ''  /**'' @
       NL @ ''   * User biography'' @
       NL @ ''   * Type: varchar(255)'' @
       NL @ ''   * Default value: null'' @
       NL @ ''   */'' @
       NL @ ''  bio: string | null;'' @
       NL @
       NL @ ''  /**'' @
       NL @ ''   * Type: bigint'' @
       NL @ ''   * Default value: null'' @
       NL @ ''   */'' @
       NL @ ''  id: number;'' @
       NL @ ''}'' @
       NL @ ''export type usersDto = usersDtoWritable;''"
proof -
  have order: "sorted_wrt sqlSelectColumns_orderBy [bioColumn, idColumn]"
    by (simp add: sqlSelectColumns_orderBy_def bioColumn_def idColumn_def)
  have cols: "columnsOfTable usersTable [bioColumn, idColumn] = [bioColumn, idColumn]"
    by (simp add: columnsOfTable_def usersTable_def bioColumn_def idColumn_def)
  have ords: "map ordinal_position [bioColumn, idColumn] = [2, 1]"
    by (simp add: bioColumn_def idColumn_def)
  have bio: "generateColumnDefinition typeOfColumn bioColumn =
       NL @ ''  /**'' @
       NL @ ''   * User biography'' @
       NL @ ''   * Type: varchar(255)'' @
       NL @ ''   * Default value: null'' @
       NL @ ''   */'' @
       NL @ ''  bio: string | null;''"
    by (simp add: generateColumnDefinition_def columnCommentLine_def maxChars_def
        nullable_def typeOfColumn_def getTsType_varchar_255 bioColumn_def js_num_def
        show_nat.simps NL_def)
  have ident: "generateColumnDefinition typeOfColumn idColumn =
       NL @ ''  /**'' @
       NL @ ''   * Type: bigint'' @
       NL @ ''   * Default value: null'' @
       NL @ ''   */'' @
       NL @ ''  id: number;''"
    by (simp add: generateColumnDefinition_def columnCommentLine_def maxChars_def
        nullable_def typeOfColumn_def getTsType_bigint_unsigned idColumn_def NL_def)
  have tbl: "or_empty (MySqlTable.table_name usersTable) = ''users''"
    "tableCommentLine usersTable = []"
    by (simp_all add: usersTable_def tableCommentLine_def)
  have text_eq: "generateTableModels typeOfColumn usersTable [bioColumn, idColumn] =
       unifiedShape ''users'' []
         (generateColumnDefinition typeOfColumn bioColumn @ NL @
          generateColumnDefinition typeOfColumn idColumn)"
    by (simp add: generateTableModels_unified tbl)
  show ?thesis
    unfolding cols text_eq bio ident
    using order ords by (simp add: unifiedShape_def NL_def)
qed

lemma tableLoop_map:
  "tableLoop mapType columnRows tableRows modelList =
     modelList @
     map (\<lambda>t. generateTableModels mapType t (columnsOfTable t columnRows))
       (filter (\<lambda>t. truthy_str (MySqlTable.table_name t)) tableRows)"
  by (induction tableRows arbitrary: modelList) simp_all

text \<open>
  C3, amended. The schema's text holds one block per named table row, and the block of a
  table is the unified template around the field declarations of exactly the column rows
  that carry the table's name, one declaration per such row, in the order in which the
  reader listed those rows: the i-th field renders the i-th such row, and whatever order
  relation the rows of the query satisfy, the rows of the table satisfy too. The query
  orders by table name and column name; nothing orders by ordinal position.
\<close>

theorem fields_follow_row_order:
  "tableLoop mapType columnRows tableRows [] =
     map (\<lambda>t. generateTableModels mapType t
                (filter (\<lambda>c. MySqlColumn.table_name c = MySqlTable.table_name t) columnRows))
       (filter (\<lambda>t. truthy_str (MySqlTable.table_name t)) tableRows)
   \<and> columnsOfTable tableRow columnRows =
       filter (\<lambda>c. MySqlColumn.table_name c = MySqlTable.table_name tableRow) columnRows
   \<and> generateTableModels mapType tableRow
        (filter (\<lambda>c. MySqlColumn.table_name c = MySqlTable.table_name tableRow) columnRows) =
       NL @ ''/**'' @
       NL @ '' * Model for read & write operations on table '' @
         or_empty (MySqlTable.table_name tableRow) @
         (case table_comment tableRow of
            None \<Rightarrow> []
          | Some t \<Rightarrow> if t = [] then [] else NL @ '' * '' @ t) @
       NL @ '' */'' @
       NL @ ''export interface '' @ or_empty (MySqlTable.table_name tableRow) @
         ''DtoWritable {'' @
       NL @ join NL
              (map (generateColumnDefinition mapType)
                 (filter (\<lambda>c. MySqlColumn.table_name c = MySqlTable.table_name tableRow)
                    columnRows)) @
       NL @ ''}'' @
       NL @ ''export type '' @ or_empty (MySqlTable.table_name tableRow) @ ''Dto = '' @
         or_empty (MySqlTable.table_name tableRow) @ ''DtoWritable;''
   \<and> columnListWritable mapType (columnsOfTable tableRow columnRows) =
       map (generateColumnDefinition mapType)
         (filter (\<lambda>c. MySqlColumn.table_name c = MySqlTable.table_name tableRow) columnRows)
   \<and> length (columnListWritable mapType (columnsOfTable tableRow columnRows)) =
       length (filter (\<lambda>c. MySqlColumn.table_name c = MySqlTable.table_name tableRow)
                 columnRows)
   \<and> (\<forall>i < length (filter (\<lambda>c. MySqlColumn.table_name c = MySqlTable.table_name tableRow)
                       columnRows).
         columnListWritable mapType (columnsOfTable tableRow columnRows) ! i =
           generateColumnDefinition mapType
             (filter (\<lambda>c. MySqlColumn.table_name c = MySqlTable.table_name tableRow)
                columnRows ! i))
   \<and> (sorted_wrt R columnRows \<longrightarrow>
        sorted_wrt R
          (filter (\<lambda>c. MySqlColumn.table_name c = MySqlTable.table_name tableRow)
             columnRows))"
proof -
  have loop: "tableLoop mapType columnRows tableRows [] =
     map (\<lambda>t. generateTableModels mapType t
                (filter (\<lambda>c. MySqlColumn.table_name c = MySqlTable.table_name t) columnRows))
       (filter (\<lambda>t. truthy_str (MySqlTable.table_name t)) tableRows)"
    by (simp add: tableLoop_map columnsOfTable_def)
  have cols: "columnsOfTable tableRow columnRows =
       filter (\<lambda>c. MySqlColumn.table_name c = MySqlTable.table_name tableRow) columnRows"
    by (simp add: columnsOfTable_def)
  have fields: "columnListWritable mapType (columnsOfTable tableRow columnRows) =
       map (generateColumnDefinition mapType)
         (filter (\<lambda>c. MySqlColumn.table_name c = MySqlTable.table_name tableRow) columnRows)"
    by (simp add: columnListWritable_def columnListAll_def comp_def cols)
  have order: "sorted_wrt R columnRows \<longrightarrow>
        sorted_wrt R
          (filter (\<lambda>c. MySqlColumn.table_name c = MySqlTable.table_name tableRow)
             columnRows)"
    by (simp add: sorted_wrt_filter)
  show ?thesis
    unfolding fields
    using loop cols order
      generateTableModels_text [of mapType tableRow
        "filter (\<lambda>c. MySqlColumn.table_name c = MySqlTable.table_name tableRow) columnRows"]
    by simp
qed

theorem fields_follow_row_order_witness:
  "sorted_wrt sqlSelectColumns_orderBy [bioColumn, idColumn]
   \<and> sorted_wrt sqlSelectColumns_orderBy
       (filter (\<lambda>c. MySqlColumn.table_name c = MySqlTable.table_name usersTable)
          [bioColumn, idColumn])
   \<and> filter (\<lambda>c. MySqlColumn.table_name c = MySqlTable.table_name usersTable)
       [bioColumn, idColumn, bioColumn\<lparr>MySqlColumn.table_name := Some ''orders''\<rparr>] =
       [bioColumn, idColumn]
   \<and> columnListWritable typeOfColumn
        (columnsOfTable usersTable
           [bioColumn, idColumn, bioColumn\<lparr>MySqlColumn.table_name := Some ''orders''\<rparr>]) =
       [generateColumnDefinition typeOfColumn bioColumn,
        generateColumnDefinition typeOfColumn idColumn]
   \<and> (1::nat) < length (filter (\<lambda>c. MySqlColumn.table_name c = MySqlTable.table_name usersTable)
                       [bioColumn, idColumn])
   \<and> columnListWritable typeOfColumn (columnsOfTable usersTable [bioColumn, idColumn]) ! 1 =
       generateColumnDefinition typeOfColumn idColumn"
proof -
  let ?other = "bioColumn\<lparr>MySqlColumn.table_name := Some ''orders''\<rparr>"
  have order: "sorted_wrt sqlSelectColumns_orderBy [bioColumn, idColumn]"
    by (simp add: sqlSelectColumns_orderBy_def bioColumn_def idColumn_def)
  have cols: "filter (\<lambda>c. MySqlColumn.table_name c = MySqlTable.table_name usersTable)
      [bioColumn, idColumn] = [bioColumn, idColumn]"
    by (simp add: usersTable_def bioColumn_def idColumn_def)
  have cols3: "filter (\<lambda>c. MySqlColumn.table_name c = MySqlTable.table_name usersTable)
      [bioColumn, idColumn, ?other] = [bioColumn, idColumn]"
    by (simp add: usersTable_def bioColumn_def idColumn_def)
  have len: "(1::nat) < length (filter
      (\<lambda>c. MySqlColumn.table_name c = MySqlTable.table_name usersTable) [bioColumn, idColumn])"
    unfolding cols by simp
  note inst = fields_follow_row_order
    [where mapType = typeOfColumn and tableRow = usersTable
      and columnRows = "[bioColumn, idColumn]" and R = sqlSelectColumns_orderBy]
  note inst3 = fields_follow_row_order
    [where mapType = typeOfColumn and tableRow = usersTable
      and columnRows = "[bioColumn, idColumn, ?other]"]
  from inst order
  have sorted': "sorted_wrt sqlSelectColumns_orderBy
      (filter (\<lambda>c. MySqlColumn.table_name c = MySqlTable.table_name usersTable)
         [bioColumn, idColumn])"
    by blast
  from inst len
  have "columnListWritable typeOfColumn (columnsOfTable usersTable [bioColumn, idColumn]) ! 1 =
      generateColumnDefinition typeOfColumn
        (filter (\<lambda>c. MySqlColumn.table_name c = MySqlTable.table_name usersTable)
           [bioColumn, idColumn] ! 1)"
    by blast
  then have nth: "columnListWritable typeOfColumn
      (columnsOfTable usersTable [bioColumn, idColumn]) ! 1 =
      generateColumnDefinition typeOfColumn idColumn"
    by (simp only: cols) simp
  from inst3
  have "columnListWritable typeOfColumn
      (columnsOfTable usersTable [bioColumn, idColumn, ?other]) =
      map (generateColumnDefinition typeOfColumn)
        (filter (\<lambda>c. MySqlColumn.table_name c = MySqlTable.table_name usersTable)
           [bioColumn, idColumn, ?other])"
    by blast
  then have fields: "columnListWritable typeOfColumn
      (columnsOfTable usersTable [bioColumn, idColumn, ?other]) =
      [generateColumnDefinition typeOfColumn bioColumn,
       generateColumnDefinition typeOfColumn idColumn]"
    by (simp only: cols3) simp
  from order sorted' cols3 fields len nth show ?thesis
    by blast
qed

section \<open>The schema and the run\<close>

lemma generateSchema_Inr:
  "generateSchema mapType info name = Inr out \<Longrightarrow> schemaName out = name"
  by (auto simp: generateSchema_def split: sum.splits)

lemma generateSchema_returned:
  "returned (schemaTables info name) \<Longrightarrow> returned (schemaColumns info name) \<Longrightarrow>
   returned (generateSchema mapType info name)"
  by (cases "schemaTables info name"; cases "schemaColumns info name")
     (simp_all add: generateSchema_def)

lemma generateLoop_result:
  "generateLoop mapType info rows acc = Inr result \<Longrightarrow>
   \<exists>outs. result = acc @ outs
     \<and> list_all2 (\<lambda>name out. generateSchema mapType info name = Inr out)
          (survivingSchemaNames rows) outs"
proof (induction rows arbitrary: acc)
  case Nil
  then show ?case by simp
next
  case (Cons schemaRow rest)
  show ?case
  proof (cases "truthy_str (schema_name schemaRow)")
    case False
    with Cons show ?thesis by simp
  next
    case True
    with Cons.prems obtain schemaOut where
      schemaOut: "generateSchema mapType info (or_empty (schema_name schemaRow)) = Inr schemaOut"
      and rest: "generateLoop mapType info rest (acc @ [schemaOut]) = Inr result"
      by (auto split: sum.splits)
    from Cons.IH [OF rest] obtain outs where
      "result = (acc @ [schemaOut]) @ outs"
      "list_all2 (\<lambda>name out. generateSchema mapType info name = Inr out)
         (survivingSchemaNames rest) outs"
      by blast
    with True schemaOut show ?thesis
      by (intro exI [of _ "schemaOut # outs"]) simp
  qed
qed

lemma generateLoop_returned:
  "list_all (\<lambda>n. returned (generateSchema mapType info n)) (survivingSchemaNames rows) \<Longrightarrow>
   returned (generateLoop mapType info rows acc)"
proof (induction rows arbitrary: acc)
  case Nil
  then show ?case by simp
next
  case (Cons schemaRow rest)
  then show ?case
    by (cases "generateSchema mapType info (or_empty (schema_name schemaRow))") auto
qed

lemma list_all2_schemaName:
  "list_all2 (\<lambda>name out. generateSchema mapType info name = Inr out) names outs \<Longrightarrow>
   map schemaName outs = names"
  by (induction names outs rule: list_all2_induct) (auto dest: generateSchema_Inr)

text \<open>
  C7. When the schema query returns its rows and the run returns a result, the result is
  the shared \<open>_types\<close> output followed by exactly one output per schema row with a name, in
  row order, each the output of \<open>generateSchema\<close> for that name. The run does return a
  result when the two queries of every such schema return theirs.
\<close>

theorem generate_result_order:
  "schemata info = Inr schemaRows \<longrightarrow>
     (generate mapType info = Inr result \<longrightarrow>
        (\<exists>outs. result = generateCommonTypes # outs
           \<and> schemaName generateCommonTypes = ''_types''
           \<and> map schemaName outs = survivingSchemaNames schemaRows
           \<and> list_all2 (\<lambda>name out. generateSchema mapType info name = Inr out)
                (survivingSchemaNames schemaRows) outs))
     \<and> (queriesSucceed info (survivingSchemaNames schemaRows) \<longrightarrow>
          returned (generate mapType info))"
proof (intro impI conjI)
  assume rows: "schemata info = Inr schemaRows" and res: "generate mapType info = Inr result"
  then have "generateLoop mapType info schemaRows [generateCommonTypes] = Inr result"
    by (simp add: generate_def)
  from generateLoop_result [OF this] obtain outs where
    outs: "result = [generateCommonTypes] @ outs"
      "list_all2 (\<lambda>name out. generateSchema mapType info name = Inr out)
         (survivingSchemaNames schemaRows) outs"
    by blast
  then show "\<exists>outs. result = generateCommonTypes # outs
           \<and> schemaName generateCommonTypes = ''_types''
           \<and> map schemaName outs = survivingSchemaNames schemaRows
           \<and> list_all2 (\<lambda>name out. generateSchema mapType info name = Inr out)
                (survivingSchemaNames schemaRows) outs"
    by (intro exI [of _ outs]) (simp add: list_all2_schemaName generateCommonTypes_def)
next
  assume rows: "schemata info = Inr schemaRows"
    and ok: "queriesSucceed info (survivingSchemaNames schemaRows)"
  from ok have "list_all (\<lambda>n. returned (generateSchema mapType info n))
      (survivingSchemaNames schemaRows)"
    by (simp add: queriesSucceed_def list_all_iff generateSchema_returned)
  then show "returned (generate mapType info)"
    using rows by (simp add: generate_def generateLoop_returned)
qed



theorem generate_result_order_witness:
  "schemata shopReader = Inr [shopSchema]
   \<and> queriesSucceed shopReader (survivingSchemaNames [shopSchema])
   \<and> returned (generate typeOfColumn shopReader)
   \<and> (\<exists>result outs. generate typeOfColumn shopReader = Inr result
         \<and> result = generateCommonTypes # outs
         \<and> map schemaName outs = [''shop''])"
proof -
  have rows: "schemata shopReader = Inr [shopSchema]"
    by (simp add: shopReader_def)
  have names: "survivingSchemaNames [shopSchema] = [''shop'']"
    by (simp add: shopSchema_def)
  have ok: "queriesSucceed shopReader (survivingSchemaNames [shopSchema])"
    by (simp add: names queriesSucceed_def shopReader_def)
  note inst = generate_result_order [of shopReader "[shopSchema]" typeOfColumn]
  from inst rows ok have ret: "returned (generate typeOfColumn shopReader)"
    by blast
  then obtain result where res: "generate typeOfColumn shopReader = Inr result"
    by (cases "generate typeOfColumn shopReader") simp_all
  from generate_result_order [of shopReader "[shopSchema]" typeOfColumn result] rows res
  obtain outs where "result = generateCommonTypes # outs"
    "map schemaName outs = survivingSchemaNames [shopSchema]"
    by blast
  with rows ok ret res names show ?thesis
    by auto
qed

lemma generateSchema_schemata_update [simp]:
  "generateSchema mapType (info\<lparr>schemata := x\<rparr>) name = generateSchema mapType info name"
  by (simp add: generateSchema_def split: sum.splits)

lemma generateLoop_schemata_update [simp]:
  "generateLoop mapType (info\<lparr>schemata := x\<rparr>) rows acc = generateLoop mapType info rows acc"
  by (induction rows arbitrary: acc) (simp_all split: sum.splits)

lemma generateLoop_skip:
  "\<not> truthy_str (schema_name schemaRow) \<Longrightarrow>
   generateLoop mapType info (before @ schemaRow # after) acc =
     generateLoop mapType info (before @ after) acc"
  by (induction before arbitrary: acc) (simp_all split: sum.splits)

lemma schemaContent_skip:
  "\<not> truthy_str (MySqlTable.table_name tableRow) \<Longrightarrow>
   schemaContent mapType (before @ tableRow # after) columnRows =
     schemaContent mapType (before @ after) columnRows"
  by (simp add: schemaContent_def tableLoop_map)

text \<open>
  C9. A schema row whose name is null or empty changes nothing: the run over the rows
  with it equals the run over the rows without it, and the loop step for it returns the
  outputs it was given, with no error. The same holds for a table row whose name is null
  or empty inside the output of its schema.
\<close>

theorem nameless_rows_skipped:
  "(\<not> truthy_str (schema_name schemaRow) \<longrightarrow>
      generate mapType (info\<lparr>schemata := Inr (before @ schemaRow # after)\<rparr>) =
        generate mapType (info\<lparr>schemata := Inr (before @ after)\<rparr>)
      \<and> generateLoop mapType info [schemaRow] acc = Inr acc)
   \<and> (\<not> truthy_str (MySqlTable.table_name tableRow) \<longrightarrow>
      generateSchema mapType
          (info\<lparr>schemaTables := (schemaTables info)(name := Inr (tbefore @ tableRow # tafter))\<rparr>)
          name =
        generateSchema mapType
          (info\<lparr>schemaTables := (schemaTables info)(name := Inr (tbefore @ tafter))\<rparr>) name
      \<and> tableLoop mapType columnRows [tableRow] modelList = modelList)"
  by (simp add: generate_def generateLoop_skip generateSchema_def schemaContent_skip
      split: sum.splits)

theorem nameless_rows_skipped_witness:
  "\<not> truthy_str (schema_name namelessSchema)
   \<and> generate typeOfColumn (shopReader\<lparr>schemata := Inr ([] @ namelessSchema # [shopSchema])\<rparr>) =
       generate typeOfColumn (shopReader\<lparr>schemata := Inr ([] @ [shopSchema])\<rparr>)
   \<and> \<not> truthy_str (MySqlTable.table_name namelessTable)
   \<and> generateSchema typeOfColumn
        (shopReader\<lparr>schemaTables :=
           (schemaTables shopReader)(''shop'' := Inr ([usersTable] @ namelessTable # []))\<rparr>)
        ''shop'' =
       generateSchema typeOfColumn
        (shopReader\<lparr>schemaTables :=
           (schemaTables shopReader)(''shop'' := Inr ([usersTable] @ []))\<rparr>) ''shop''"
proof -
  have s: "\<not> truthy_str (schema_name namelessSchema)"
    by (simp add: namelessSchema_def)
  have t: "\<not> truthy_str (MySqlTable.table_name namelessTable)"
    by (simp add: namelessTable_def)
  note inst = nameless_rows_skipped
    [where schemaRow = namelessSchema and mapType = typeOfColumn and info = shopReader
      and before = "[]" and after = "[shopSchema]" and tableRow = namelessTable
      and name = "''shop''" and tbefore = "[usersTable]" and tafter = "[]"]
  from inst s t show ?thesis
    by blast
qed




section \<open>The type mapper and the rule table\<close>

lemma lang_ConsI: "u \<in> item_lang i \<Longrightarrow> v \<in> lang p \<Longrightarrow> u @ v \<in> lang (i # p)"
  by auto

lemma match_lang:
  "match_here p s \<longleftrightarrow> (\<exists>u v. s = u @ v \<and> u \<in> lang p)"
  "match_plus P p s \<longleftrightarrow>
     (\<exists>u v w. s = u @ v @ w \<and> u \<noteq> [] \<and> list_all P u \<and> v \<in> lang p)"
proof (induction p s and P p s rule: match_here_match_plus.induct)
  case (1 s)
  show ?case by simp
next
  case (2 c p)
  show ?case by simp
next
  case (3 c p x xs)
  show ?case
  proof
    assume "match_here (Chr c # p) (x # xs)"
    with 3 obtain u v where "lower x = lower c" "xs = u @ v" "u \<in> lang p"
      by auto
    then have "x # xs = ([x] @ u) @ v \<and> [x] @ u \<in> lang (Chr c # p)"
      by (intro conjI lang_ConsI) simp_all
    then show "\<exists>u v. x # xs = u @ v \<and> u \<in> lang (Chr c # p)"
      by blast
  next
    assume "\<exists>u v. x # xs = u @ v \<and> u \<in> lang (Chr c # p)"
    then obtain y u' v where "x # xs = ([y] @ u') @ v" "lower y = lower c" "u' \<in> lang p"
      by auto
    with 3 show "match_here (Chr c # p) (x # xs)"
      by auto
  qed
next
  case (4 p s)
  show ?case
  proof
    assume "match_here (Digits # p) s"
    with 4 obtain u v w where "s = u @ v @ w" "u \<noteq> []" "list_all is_digit u" "v \<in> lang p"
      by auto
    then have "s = (u @ v) @ w \<and> u @ v \<in> lang (Digits # p)"
      by auto
    then show "\<exists>u v. s = u @ v \<and> u \<in> lang (Digits # p)"
      by blast
  next
    assume "\<exists>u v. s = u @ v \<and> u \<in> lang (Digits # p)"
    then obtain u v w where "s = (u @ v) @ w" "u \<noteq> []" "list_all is_digit u" "v \<in> lang p"
      by auto
    with 4 show "match_here (Digits # p) s"
      by auto
  qed
next
  case (5 p s)
  show ?case
  proof
    assume "match_here (AnyChars # p) s"
    with 5 obtain u v w where "s = u @ v @ w" "u \<noteq> []" "list_all is_dot_char u" "v \<in> lang p"
      by auto
    then have "s = (u @ v) @ w \<and> u @ v \<in> lang (AnyChars # p)"
      by auto
    then show "\<exists>u v. s = u @ v \<and> u \<in> lang (AnyChars # p)"
      by blast
  next
    assume "\<exists>u v. s = u @ v \<and> u \<in> lang (AnyChars # p)"
    then obtain u v w where "s = (u @ v) @ w" "u \<noteq> []" "list_all is_dot_char u" "v \<in> lang p"
      by auto
    with 5 show "match_here (AnyChars # p) s"
      by auto
  qed
next
  case (6 P p)
  show ?case by simp
next
  case (7 P p x xs)
  show ?case
  proof
    assume m: "match_plus P p (x # xs)"
    then have px: "P x" by simp
    from m consider "match_plus P p xs" | "match_here p xs" by auto
    then show "\<exists>u v w. x # xs = u @ v @ w \<and> u \<noteq> [] \<and> list_all P u \<and> v \<in> lang p"
    proof cases
      case 1
      with 7 obtain u v w where "xs = u @ v @ w" "list_all P u" "v \<in> lang p"
        by auto
      with px have "x # xs = (x # u) @ v @ w \<and> x # u \<noteq> [] \<and> list_all P (x # u) \<and> v \<in> lang p"
        by simp
      then show ?thesis by blast
    next
      case 2
      with 7 obtain v w where "xs = v @ w" "v \<in> lang p"
        by auto
      with px have "x # xs = [x] @ v @ w \<and> [x] \<noteq> [] \<and> list_all P [x] \<and> v \<in> lang p"
        by simp
      then show ?thesis by blast
    qed
  next
    assume "\<exists>u v w. x # xs = u @ v @ w \<and> u \<noteq> [] \<and> list_all P u \<and> v \<in> lang p"
    then obtain u v w where
      eq: "x # xs = u @ v @ w" and ne: "u \<noteq> []" and all: "list_all P u" and v: "v \<in> lang p"
      by blast
    from ne obtain y u' where u: "u = y # u'" by (cases u) auto
    with eq all have px: "P x" and xs: "xs = u' @ v @ w" and all': "list_all P u'"
      by auto
    show "match_plus P p (x # xs)"
    proof (cases "u' = []")
      case True
      with xs v 7 have "match_here p xs" by auto
      with px show ?thesis by simp
    next
      case False
      with xs v all' 7 have "match_plus P p xs" by blast
      with px show ?thesis by simp
    qed
  qed
qed

lemma re_test_iff:
  "re_test p s \<longleftrightarrow> (\<exists>a u b. s = a @ u @ b \<and> u \<in> lang p)"
proof (induction s)
  case Nil
  show ?case by (simp add: match_lang(1))
next
  case (Cons x xs)
  show ?case
  proof
    assume "re_test p (x # xs)"
    then consider "match_here p (x # xs)" | "re_test p xs" by auto
    then show "\<exists>a u b. x # xs = a @ u @ b \<and> u \<in> lang p"
    proof cases
      case 1
      then obtain u v where "x # xs = [] @ u @ v" "u \<in> lang p"
        by (auto simp: match_lang(1))
      then show ?thesis by blast
    next
      case 2
      with Cons obtain a u b where "xs = a @ u @ b" "u \<in> lang p" by blast
      then have "x # xs = (x # a) @ u @ b \<and> u \<in> lang p" by simp
      then show ?thesis by blast
    qed
  next
    assume "\<exists>a u b. x # xs = a @ u @ b \<and> u \<in> lang p"
    then obtain a u b where eq: "x # xs = a @ u @ b" and u: "u \<in> lang p" by blast
    show "re_test p (x # xs)"
    proof (cases a)
      case Nil
      with eq u have "match_here p (x # xs)"
        by (auto simp: match_lang(1))
      then show ?thesis by simp
    next
      case (Cons y a')
      with eq have "xs = a' @ u @ b" by simp
      with u Cons.IH have "re_test p xs" by blast
      then show ?thesis by simp
    qed
  qed
qed

lemma getTsTypeFrom_first:
  "i < length rules \<Longrightarrow> re_test (re (rules ! i)) d \<Longrightarrow>
   \<forall>q \<in> set (take i rules). \<not> re_test (re q) d \<Longrightarrow>
   getTsTypeFrom rules d = ts (rules ! i)"
proof (induction rules arbitrary: i)
  case Nil
  then show ?case by simp
next
  case (Cons r rules)
  show ?case
  proof (cases i)
    case 0
    with Cons.prems show ?thesis by simp
  next
    case (Suc k)
    with Cons.prems have "\<not> re_test (re r) d" "k < length rules"
      "re_test (re (rules ! k)) d" "\<forall>q \<in> set (take k rules). \<not> re_test (re q) d"
      by simp_all
    with Cons.IH [of k] Suc show ?thesis by simp
  qed
qed

lemma getTsTypeFrom_none:
  "\<forall>r \<in> set rules. \<not> re_test (re r) d \<Longrightarrow> getTsTypeFrom rules d = ''any''"
  by (induction rules) simp_all

lemma getTsTypeFrom_range:
  "getTsTypeFrom rules d = ''any'' \<or> getTsTypeFrom rules d \<in> ts ` set rules"
  by (induction rules) auto

lemma table_categories:
  "list_all (\<lambda>r. ts r = ''number'' \<or> ts r = ''string'' \<or> ts r = ''any'') MySqlColumnTypePatterns"
  by code_simp

text \<open>
  C1. \<open>re_test\<close> is unanchored, case-insensitive matching: a pattern matches a description
  exactly when some contiguous part of the description is in the pattern's language. The
  type mapper returns the category of the first rule of the table, in list order, whose
  pattern matches the description, whatever the later rules are; when no rule matches it
  returns the opaque category \<open>any\<close>; and its result is always one of the three categories.
\<close>

theorem getTsType_first_match:
  "(re_test p d \<longleftrightarrow> (\<exists>a u b. d = a @ u @ b \<and> u \<in> lang p))
   \<and> (i < length MySqlColumnTypePatterns
        \<and> re_test (re (MySqlColumnTypePatterns ! i)) d
        \<and> (\<forall>q \<in> set (take i MySqlColumnTypePatterns). \<not> re_test (re q) d)
       \<longrightarrow> getTsType d = ts (MySqlColumnTypePatterns ! i))
   \<and> ((\<forall>r \<in> set MySqlColumnTypePatterns. \<not> re_test (re r) d) \<longrightarrow> getTsType d = ''any'')
   \<and> getTsType d \<in> {''number'', ''string'', ''any''}"
proof (intro conjI impI)
  show "re_test p d \<longleftrightarrow> (\<exists>a u b. d = a @ u @ b \<and> u \<in> lang p)"
    by (rule re_test_iff)
next
  assume "i < length MySqlColumnTypePatterns
        \<and> re_test (re (MySqlColumnTypePatterns ! i)) d
        \<and> (\<forall>q \<in> set (take i MySqlColumnTypePatterns). \<not> re_test (re q) d)"
  then show "getTsType d = ts (MySqlColumnTypePatterns ! i)"
    unfolding getTsType_def by (intro getTsTypeFrom_first) blast+
next
  assume "\<forall>r \<in> set MySqlColumnTypePatterns. \<not> re_test (re r) d"
  then show "getTsType d = ''any''"
    unfolding getTsType_def by (rule getTsTypeFrom_none)
next
  from table_categories have "ts ` set MySqlColumnTypePatterns \<subseteq> {''number'', ''string'', ''any''}"
    unfolding list_all_iff by blast
  with getTsTypeFrom_range [of MySqlColumnTypePatterns d]
  show "getTsType d \<in> {''number'', ''string'', ''any''}"
    unfolding getTsType_def by blast
qed

lemma smallint_scan:
  "14 < length MySqlColumnTypePatterns"
  "re_test (re (MySqlColumnTypePatterns ! 14)) ''SMALLINT(6)''"
  "list_all (\<lambda>q. \<not> re_test (re q) ''SMALLINT(6)'') (take 14 MySqlColumnTypePatterns)"
  "re (MySqlColumnTypePatterns ! 14) = lit ''int''"
  "ts (MySqlColumnTypePatterns ! 14) = ''number''"
  "list_all (\<lambda>q. \<not> re_test (re q) ''date'') MySqlColumnTypePatterns"
  by code_simp+

theorem getTsType_first_match_witness:
  "(14::nat) < length MySqlColumnTypePatterns
   \<and> re (MySqlColumnTypePatterns ! 14) = lit ''int''
   \<and> re_test (lit ''int'') ''SMALLINT(6)''
   \<and> list_all (\<lambda>q. \<not> re_test (re q) ''SMALLINT(6)'') (take 14 MySqlColumnTypePatterns)
   \<and> getTsType ''SMALLINT(6)'' = ''number''
   \<and> list_all (\<lambda>q. \<not> re_test (re q) ''date'') MySqlColumnTypePatterns
   \<and> getTsType ''date'' = ''any''"
proof -
  note a = getTsType_first_match [where d = "''SMALLINT(6)''" and i = 14]
  note b = getTsType_first_match [where d = "''date''"]
  from a smallint_scan(1-3) have "getTsType ''SMALLINT(6)'' = ts (MySqlColumnTypePatterns ! 14)"
    unfolding list_all_iff by blast
  then have 1: "getTsType ''SMALLINT(6)'' = ''number''"
    by (simp only: smallint_scan(5))
  from b smallint_scan(6) have 2: "getTsType ''date'' = ''any''"
    unfolding list_all_iff by blast
  from smallint_scan(2,4) have 3: "re_test (lit ''int'') ''SMALLINT(6)''"
    by simp
  from 1 2 3 smallint_scan show ?thesis
    by blast
qed

lemma starts_with_iff: "starts_with xs ys \<longleftrightarrow> (\<exists>zs. ys = xs @ zs)"
  by (induction xs ys rule: starts_with.induct) auto

lemma occurs_in_iff: "occurs_in xs ys \<longleftrightarrow> (\<exists>a b. ys = a @ xs @ b)"
proof (induction ys)
  case Nil
  show ?case by (simp add: starts_with_iff)
next
  case (Cons y ys)
  show ?case
  proof
    assume "occurs_in xs (y # ys)"
    then consider "starts_with xs (y # ys)" | "occurs_in xs ys" by auto
    then show "\<exists>a b. y # ys = a @ xs @ b"
    proof cases
      case 1
      then obtain zs where "y # ys = [] @ xs @ zs"
        by (auto simp: starts_with_iff)
      then show ?thesis by blast
    next
      case 2
      with Cons obtain a b where "ys = a @ xs @ b" by blast
      then have "y # ys = (y # a) @ xs @ b" by simp
      then show ?thesis by blast
    qed
  next
    assume "\<exists>a b. y # ys = a @ xs @ b"
    then obtain a b where eq: "y # ys = a @ xs @ b" by blast
    show "occurs_in xs (y # ys)"
    proof (cases a)
      case Nil
      with eq have "starts_with xs (y # ys)"
        by (simp add: starts_with_iff)
      then show ?thesis by simp
    next
      case (Cons z a')
      with eq have "ys = a' @ xs @ b" by simp
      with Cons.IH have "occurs_in xs ys" by blast
      then show ?thesis by simp
    qed
  qed
qed

lemma lang_append:
  "w \<in> lang (p @ q) \<longleftrightarrow> (\<exists>u v. w = u @ v \<and> u \<in> lang p \<and> v \<in> lang q)"
proof (induction p arbitrary: w)
  case Nil
  show ?case by simp
next
  case (Cons i p)
  show ?case
  proof
    assume "w \<in> lang ((i # p) @ q)"
    then obtain x y where "w = x @ y" "x \<in> item_lang i" "y \<in> lang (p @ q)"
      by auto
    with Cons obtain u v where "w = (x @ u) @ v" "x \<in> item_lang i" "u \<in> lang p" "v \<in> lang q"
      by auto
    then have "w = (x @ u) @ v \<and> x @ u \<in> lang (i # p) \<and> v \<in> lang q"
      by (intro conjI lang_ConsI) simp_all
    then show "\<exists>u v. w = u @ v \<and> u \<in> lang (i # p) \<and> v \<in> lang q"
      by blast
  next
    assume "\<exists>u v. w = u @ v \<and> u \<in> lang (i # p) \<and> v \<in> lang q"
    then obtain x u v where "w = x @ (u @ v)" "x \<in> item_lang i" "u \<in> lang p" "v \<in> lang q"
      by auto
    with Cons have "w = x @ (u @ v) \<and> x \<in> item_lang i \<and> u @ v \<in> lang (p @ q)"
      by blast
    then show "w \<in> lang ((i # p) @ q)"
      by auto
  qed
qed

lemma occurs_in_subsumes:
  assumes "occurs_in g s" and "re_test s d"
  shows "re_test g d"
proof -
  from assms(1) obtain a b where s: "s = a @ g @ b"
    by (auto simp: occurs_in_iff)
  from assms(2) obtain x w y where d: "d = x @ w @ y" and w: "w \<in> lang s"
    by (auto simp: re_test_iff)
  from w s obtain w1 w2 w3 where "w = w1 @ w2 @ w3" "w2 \<in> lang g"
    by (auto simp: lang_append)
  with d have "d = (x @ w1) @ w2 @ (w3 @ y) \<and> w2 \<in> lang g"
    by simp
  then show ?thesis
    unfolding re_test_iff by blast
qed

lemma overlappingPairs_eq:
  "overlappingPairs =
     [ (lit ''bigint'', lit ''int''), (lit ''smallint'', lit ''int''),
       (lit ''tinyint'', lit ''int''), (lit ''mediumint unsigned'', lit ''int''),
       (lit ''float'' @ paren_dd, lit ''float''), (lit ''double'' @ paren_dd, lit ''double'') ]"
  by code_simp

lemma overlapping_positions:
  "list_all (\<lambda>(s, g).
      pattern_ts MySqlColumnTypePatterns s = Some ''number''
      \<and> pattern_ts MySqlColumnTypePatterns g = Some ''number''
      \<and> (if s = lit ''bigint'' then precedes MySqlColumnTypePatterns s g
          else precedes MySqlColumnTypePatterns g s)) overlappingPairs"
  by code_simp

text \<open>
  C2, as stated, fails. The bare pattern \<open>int\<close> is part of the specific pattern \<open>smallint\<close>
  and matches the description \<open>smallint\<close>, yet \<open>smallint\<close> stands at position 23 of the
  table and \<open>int\<close> at position 14.
\<close>

theorem specific_before_generic_counterexample:
  "lit ''smallint'' \<in> set specificNumericPatterns
   \<and> lit ''int'' \<in> set genericNumericPatterns
   \<and> occurs_in (lit ''int'') (lit ''smallint'')
   \<and> re_test (lit ''int'') ''smallint''
   \<and> pattern_index MySqlColumnTypePatterns (lit ''smallint'') = Some 23
   \<and> pattern_index MySqlColumnTypePatterns (lit ''int'') = Some 14
   \<and> \<not> precedes MySqlColumnTypePatterns (lit ''smallint'') (lit ''int'')"
  by code_simp

lemma pattern_index_Some:
  "pattern_index rules r = Some k \<Longrightarrow>
   k < length rules \<and> re (rules ! k) = r \<and> pattern_ts rules r = Some (ts (rules ! k))"
proof (induction rules arbitrary: k)
  case Nil
  then show ?case by simp
next
  case (Cons x xs)
  show ?case
  proof (cases "re x = r")
    case True
    with Cons.prems show ?thesis by simp
  next
    case False
    with Cons.prems obtain k' where k': "pattern_index xs r = Some k'" "k = Suc k'"
      by auto
    with Cons.IH [of k'] False show ?thesis by simp
  qed
qed

lemma earlier_rule_decides:
  assumes idx: "pattern_index MySqlColumnTypePatterns e = Some k"
    and cat: "pattern_ts MySqlColumnTypePatterns e = Some ''number''"
    and hit: "re_test e d"
    and miss: "\<forall>q \<in> set (take k MySqlColumnTypePatterns). \<not> re_test (re q) d"
  shows "getTsType d = ''number''"
proof -
  from pattern_index_Some [OF idx] cat
  have k: "k < length MySqlColumnTypePatterns" "re (MySqlColumnTypePatterns ! k) = e"
    "ts (MySqlColumnTypePatterns ! k) = ''number''"
    by simp_all
  from k(2) hit have "re_test (re (MySqlColumnTypePatterns ! k)) d"
    by simp
  from getTsTypeFrom_first [OF k(1) this miss] k(3) show ?thesis
    by (simp add: getTsType_def)
qed

text \<open>
  C2, amended. Six pairs of a specific numeric pattern and a bare generic pattern overlap.
  Only \<open>bigint\<close> stands before its generic pattern; in the five other pairs (the table is
  in alphabetical order) the generic pattern stands first. In each pair the generic
  pattern matches every description the specific one matches and both rules carry the
  category \<open>number\<close>; so a description that the specific pattern matches, and that no rule
  standing before the earlier rule of the pair matches, is mapped to \<open>number\<close>.
\<close>

theorem generic_overlaps_keep_category:
  "overlappingPairs =
     [ (lit ''bigint'', lit ''int''), (lit ''smallint'', lit ''int''),
       (lit ''tinyint'', lit ''int''), (lit ''mediumint unsigned'', lit ''int''),
       (lit ''float'' @ paren_dd, lit ''float''), (lit ''double'' @ paren_dd, lit ''double'') ]
   \<and> (\<forall>s \<in> set specificNumericPatterns. \<forall>g \<in> set genericNumericPatterns.
         occurs_in g s \<longrightarrow>
           (\<forall>d. re_test s d \<longrightarrow> re_test g d)
           \<and> pattern_ts MySqlColumnTypePatterns s = Some ''number''
           \<and> pattern_ts MySqlColumnTypePatterns g = Some ''number''
           \<and> (if s = lit ''bigint'' then precedes MySqlColumnTypePatterns s g
               else precedes MySqlColumnTypePatterns g s)
           \<and> (\<forall>d k. re_test s d
                 \<and> pattern_index MySqlColumnTypePatterns (if s = lit ''bigint'' then s else g) =
                     Some k
                 \<and> (\<forall>q \<in> set (take k MySqlColumnTypePatterns). \<not> re_test (re q) d)
                \<longrightarrow> getTsType d = ''number''))"
proof (intro conjI ballI impI allI)
  show "overlappingPairs =
     [ (lit ''bigint'', lit ''int''), (lit ''smallint'', lit ''int''),
       (lit ''tinyint'', lit ''int''), (lit ''mediumint unsigned'', lit ''int''),
       (lit ''float'' @ paren_dd, lit ''float''), (lit ''double'' @ paren_dd, lit ''double'') ]"
    by (rule overlappingPairs_eq)
next
  fix s g d
  assume "occurs_in g s" "re_test s d"
  then show "re_test g d" by (rule occurs_in_subsumes)
next
  fix s g
  assume sg: "s \<in> set specificNumericPatterns" "g \<in> set genericNumericPatterns"
    "occurs_in g s"
  then have "(s, g) \<in> set overlappingPairs"
    by (auto simp: overlappingPairs_def)
  with overlapping_positions
  have *: "pattern_ts MySqlColumnTypePatterns s = Some ''number''
      \<and> pattern_ts MySqlColumnTypePatterns g = Some ''number''
      \<and> (if s = lit ''bigint'' then precedes MySqlColumnTypePatterns s g
          else precedes MySqlColumnTypePatterns g s)"
    unfolding list_all_iff by blast
  from * show "pattern_ts MySqlColumnTypePatterns s = Some ''number''" by blast
  from * show "pattern_ts MySqlColumnTypePatterns g = Some ''number''" by blast
  from * show "if s = lit ''bigint'' then precedes MySqlColumnTypePatterns s g
               else precedes MySqlColumnTypePatterns g s" by blast
  fix d k
  assume a: "re_test s d
      \<and> pattern_index MySqlColumnTypePatterns (if s = lit ''bigint'' then s else g) = Some k
      \<and> (\<forall>q \<in> set (take k MySqlColumnTypePatterns). \<not> re_test (re q) d)"
  let ?e = "if s = lit ''bigint'' then s else g"
  from a sg(3) have hit: "re_test ?e d"
    by (auto intro: occurs_in_subsumes)
  from * have cat: "pattern_ts MySqlColumnTypePatterns ?e = Some ''number''"
    by auto
  from a have idx: "pattern_index MySqlColumnTypePatterns ?e = Some k"
    and miss: "\<forall>q \<in> set (take k MySqlColumnTypePatterns). \<not> re_test (re q) d"
    by blast+
  from earlier_rule_decides [OF idx cat hit miss] show "getTsType d = ''number''" .
qed

lemma overlap_facts:
  "lit ''bigint'' \<in> set specificNumericPatterns"
  "lit ''smallint'' \<in> set specificNumericPatterns"
  "lit ''int'' \<in> set genericNumericPatterns"
  "occurs_in (lit ''int'') (lit ''bigint'')"
  "occurs_in (lit ''int'') (lit ''smallint'')"
  "re_test (lit ''bigint'') ''bigint unsigned''"
  "re_test (lit ''smallint'') ''smallint(6)''"
  "pattern_index MySqlColumnTypePatterns (lit ''bigint'') = Some 0"
  "pattern_index MySqlColumnTypePatterns (lit ''int'') = Some 14"
  "list_all (\<lambda>q. \<not> re_test (re q) ''smallint(6)'') (take 14 MySqlColumnTypePatterns)"
  "lit ''smallint'' \<noteq> lit ''bigint''"
  by code_simp+

theorem generic_overlaps_keep_category_witness:
  "lit ''bigint'' \<in> set specificNumericPatterns
   \<and> lit ''smallint'' \<in> set specificNumericPatterns
   \<and> lit ''int'' \<in> set genericNumericPatterns
   \<and> occurs_in (lit ''int'') (lit ''bigint'')
   \<and> occurs_in (lit ''int'') (lit ''smallint'')
   \<and> re_test (lit ''bigint'') ''bigint unsigned''
   \<and> re_test (lit ''int'') ''bigint unsigned''
   \<and> pattern_ts MySqlColumnTypePatterns (lit ''bigint'') = Some ''number''
   \<and> pattern_ts MySqlColumnTypePatterns (lit ''int'') = Some ''number''
   \<and> precedes MySqlColumnTypePatterns (lit ''bigint'') (lit ''int'')
   \<and> precedes MySqlColumnTypePatterns (lit ''int'') (lit ''smallint'')
   \<and> re_test (lit ''smallint'') ''smallint(6)''
   \<and> pattern_index MySqlColumnTypePatterns (lit ''int'') = Some 14
   \<and> list_all (\<lambda>q. \<not> re_test (re q) ''smallint(6)'') (take 14 MySqlColumnTypePatterns)
   \<and> getTsType ''smallint(6)'' = ''number''
   \<and> getTsType ''bigint unsigned'' = ''number''"
proof -
  from generic_overlaps_keep_category overlap_facts(1,3,4)
  have big: "(\<forall>d. re_test (lit ''bigint'') d \<longrightarrow> re_test (lit ''int'') d)
      \<and> pattern_ts MySqlColumnTypePatterns (lit ''bigint'') = Some ''number''
      \<and> pattern_ts MySqlColumnTypePatterns (lit ''int'') = Some ''number''
      \<and> (if lit ''bigint'' = lit ''bigint''
          then precedes MySqlColumnTypePatterns (lit ''bigint'') (lit ''int'')
          else precedes MySqlColumnTypePatterns (lit ''int'') (lit ''bigint''))
      \<and> (\<forall>d k. re_test (lit ''bigint'') d
            \<and> pattern_index MySqlColumnTypePatterns
                 (if lit ''bigint'' = lit ''bigint'' then lit ''bigint'' else lit ''int'') = Some k
            \<and> (\<forall>q \<in> set (take k MySqlColumnTypePatterns). \<not> re_test (re q) d)
           \<longrightarrow> getTsType d = ''number'')"
    by blast
  from generic_overlaps_keep_category overlap_facts(2,3,5)
  have small: "(if lit ''smallint'' = lit ''bigint''
          then precedes MySqlColumnTypePatterns (lit ''smallint'') (lit ''int'')
          else precedes MySqlColumnTypePatterns (lit ''int'') (lit ''smallint''))
      \<and> (\<forall>d k. re_test (lit ''smallint'') d
            \<and> pattern_index MySqlColumnTypePatterns
                 (if lit ''smallint'' = lit ''bigint'' then lit ''smallint'' else lit ''int'') =
                Some k
            \<and> (\<forall>q \<in> set (take k MySqlColumnTypePatterns). \<not> re_test (re q) d)
           \<longrightarrow> getTsType d = ''number'')"
    by blast
  from big overlap_facts(6) have 1: "re_test (lit ''int'') ''bigint unsigned''"
    by blast
  from big have 2: "precedes MySqlColumnTypePatterns (lit ''bigint'') (lit ''int'')"
    by simp
  from small overlap_facts(11)
  have 3: "precedes MySqlColumnTypePatterns (lit ''int'') (lit ''smallint'')"
    by simp
  from small overlap_facts(11)
  have "\<forall>d k. re_test (lit ''smallint'') d
            \<and> pattern_index MySqlColumnTypePatterns (lit ''int'') = Some k
            \<and> (\<forall>q \<in> set (take k MySqlColumnTypePatterns). \<not> re_test (re q) d)
           \<longrightarrow> getTsType d = ''number''"
    by simp
  with overlap_facts(7,9,10) have 4: "getTsType ''smallint(6)'' = ''number''"
    unfolding list_all_iff by blast
  from big
  have "\<forall>d k. re_test (lit ''bigint'') d
            \<and> pattern_index MySqlColumnTypePatterns (lit ''bigint'') = Some k
            \<and> (\<forall>q \<in> set (take k MySqlColumnTypePatterns). \<not> re_test (re q) d)
           \<longrightarrow> getTsType d = ''number''"
    by simp
  from this [rule_format, of "''bigint unsigned''" 0] overlap_facts(6,8)
  have 5: "getTsType ''bigint unsigned'' = ''number''"
    by simp
  from big 1 2 3 4 5 overlap_facts show ?thesis
    by blast
qed

end
